theory Spec2Isabelle
  imports Complex_Main
begin

section \<open>Numbers\<close>

text \<open>
  The component \<^verbatim>\<open>src/components/ui/Globe.tsx\<close> works on the \<^verbatim>\<open>number\<close> type:
  a value is NaN, one of the two infinities, or a finite number. Finite numbers are
  embedded as reals (the two zeros coincide, as they do under \<^verbatim>\<open>===\<close> and
  \<^verbatim>\<open><=\<close>); comparison and absolute value are exact on them. Arithmetic is taken
  over the reals: rounding to the nearest double is not part of the model.
\<close>

datatype jsnum = NaN | NegInf | PosInf | Fin real

text \<open>\<^verbatim>\<open>Number.isNaN(value)\<close>\<close>

fun isNaN :: "jsnum \<Rightarrow> bool" where
  "isNaN NaN = True"
| "isNaN _ = False"

text \<open>\<^verbatim>\<open>Math.abs(value)\<close>\<close>

fun js_abs :: "jsnum \<Rightarrow> jsnum" where
  "js_abs NaN = NaN"
| "js_abs NegInf = PosInf"
| "js_abs PosInf = PosInf"
| "js_abs (Fin x) = Fin \<bar>x\<bar>"

text \<open>\<^verbatim>\<open>a <= b\<close>: false as soon as one side is NaN.\<close>

fun js_le :: "jsnum \<Rightarrow> jsnum \<Rightarrow> bool" where
  "js_le NaN _ = False"
| "js_le _ NaN = False"
| "js_le NegInf _ = True"
| "js_le _ PosInf = True"
| "js_le (Fin x) (Fin y) = (x \<le> y)"
| "js_le _ _ = False"

text \<open>\<^verbatim>\<open>a === b\<close> on numbers: NaN is equal to nothing, itself included.\<close>

fun js_strict_eq :: "jsnum \<Rightarrow> jsnum \<Rightarrow> bool" where
  "js_strict_eq NaN _ = False"
| "js_strict_eq _ NaN = False"
| "js_strict_eq a b = (a = b)"

text \<open>\<^verbatim>\<open>a - b\<close>: the difference of two infinities of the same sign is NaN.\<close>

fun js_sub :: "jsnum \<Rightarrow> jsnum \<Rightarrow> jsnum" where
  "js_sub NaN _ = NaN"
| "js_sub _ NaN = NaN"
| "js_sub (Fin x) (Fin y) = Fin (x - y)"
| "js_sub (Fin _) PosInf = NegInf"
| "js_sub (Fin _) NegInf = PosInf"
| "js_sub PosInf PosInf = NaN"
| "js_sub PosInf _ = PosInf"
| "js_sub NegInf NegInf = NaN"
| "js_sub NegInf _ = NegInf"

section \<open>Coordinate validation\<close>

text \<open>
  \<^verbatim>\<open>const isValidCoordinate = (value, max) => !Number.isNaN(value) && Math.abs(value) <= max;\<close>
\<close>

definition isValidCoordinate :: "jsnum \<Rightarrow> jsnum \<Rightarrow> bool" where
  "isValidCoordinate v mx = (\<not> isNaN v \<and> js_le (js_abs v) mx)"

definition isValidLat :: "jsnum \<Rightarrow> bool" where
  "isValidLat lat = isValidCoordinate lat (Fin 90)"

definition isValidLng :: "jsnum \<Rightarrow> bool" where
  "isValidLng lng = isValidCoordinate lng (Fin 180)"

section \<open>Color parser\<close>

text \<open>
  A string is a list of characters, one per code unit, with codes from 0 to 255: a code
  unit above 255 has no counterpart here, and in the source it makes both patterns fail,
  as every character outside the hex digits does. The class \<^verbatim>\<open>[a-f\d]\<close> under the flag
  \<^verbatim>\<open>i\<close> holds the ten digits and the letters a to f in both cases, given here by their
  character codes.
\<close>

definition isHexDigit :: "char \<Rightarrow> bool" where
  "isHexDigit c = (let n = (of_char c :: nat) in
     (48 \<le> n \<and> n \<le> 57) \<or> (97 \<le> n \<and> n \<le> 102) \<or> (65 \<le> n \<and> n \<le> 70))"

text \<open>The value of a hexadecimal digit, as \<^verbatim>\<open>parseInt\<close> reads it in radix 16.\<close>

definition hexVal :: "char \<Rightarrow> nat" where
  "hexVal c = (let n = (of_char c :: nat) in
     if 48 \<le> n \<and> n \<le> 57 then n - 48
     else if 97 \<le> n \<and> n \<le> 102 then n - 87
     else n - 55)"

text \<open>
  \<^verbatim>\<open>parseInt(s, 16)\<close> on a string that starts with neither white space, a sign nor
  \<^verbatim>\<open>0x\<close> (a capture group of hex digits never does): the longest prefix of hex
  digits is read, and NaN is the result when that prefix is empty.
\<close>

definition parseInt16 :: "string \<Rightarrow> jsnum" where
  "parseInt16 s = (case takeWhile isHexDigit s of
      [] \<Rightarrow> NaN
    | d # ds \<Rightarrow> Fin (real (foldl (\<lambda>acc c. 16 * acc + hexVal c) 0 (d # ds))))"

text \<open>
  Both patterns of \<^verbatim>\<open>hexToRgb\<close> are anchored at both ends and start with \<^verbatim>\<open>#?\<close>.
  \<open>optHash\<close> lists what may remain after \<^verbatim>\<open>^#?\<close>, the greedy alternative first;
  \<open>firstMatch\<close> returns the captures of the first alternative on which the rest of the
  pattern succeeds, as the backtracking matcher does.
\<close>

fun optHash :: "string \<Rightarrow> string list" where
  "optHash [] = [[]]"
| "optHash (c # cs) = (if c = CHR ''#'' then [cs, c # cs] else [c # cs])"

definition firstMatch :: "(string \<Rightarrow> 'a option) \<Rightarrow> string \<Rightarrow> 'a option" where
  "firstMatch body s =
     (case List.map_filter body (optHash s) of [] \<Rightarrow> None | m # _ \<Rightarrow> Some m)"

text \<open>\<^verbatim>\<open>([a-f\d])([a-f\d])([a-f\d])$\<close>, flag \<^verbatim>\<open>i\<close>\<close>

fun shorthandBody :: "string \<Rightarrow> (char \<times> char \<times> char) option" where
  "shorthandBody [c1, c2, c3] =
     (if isHexDigit c1 \<and> isHexDigit c2 \<and> isHexDigit c3 then Some (c1, c2, c3) else None)"
| "shorthandBody _ = None"

text \<open>\<^verbatim>\<open>const shorthandRegex = /^#?([a-f\d])([a-f\d])([a-f\d])$/i;\<close>\<close>

definition shorthandRegex :: "string \<Rightarrow> (char \<times> char \<times> char) option" where
  "shorthandRegex = firstMatch shorthandBody"

text \<open>\<^verbatim>\<open>([a-f\d]{2})([a-f\d]{2})([a-f\d]{2})$\<close>, flag \<^verbatim>\<open>i\<close>\<close>

fun hexBody :: "string \<Rightarrow> (string \<times> string \<times> string) option" where
  "hexBody [c1, c2, c3, c4, c5, c6] =
     (if isHexDigit c1 \<and> isHexDigit c2 \<and> isHexDigit c3 \<and>
         isHexDigit c4 \<and> isHexDigit c5 \<and> isHexDigit c6
      then Some ([c1, c2], [c3, c4], [c5, c6]) else None)"
| "hexBody _ = None"

text \<open>\<^verbatim>\<open>/^#?([a-f\d]{2})([a-f\d]{2})([a-f\d]{2})$/i.exec(hex)\<close>\<close>

definition hexRegex :: "string \<Rightarrow> (string \<times> string \<times> string) option" where
  "hexRegex = firstMatch hexBody"

record rgb =
  r :: jsnum
  g :: jsnum
  b :: jsnum

text \<open>\<^verbatim>\<open>const fallback = { r: 255, g: 255, b: 255 };\<close>\<close>

definition fallback :: rgb where
  "fallback = \<lparr>r = Fin 255, g = Fin 255, b = Fin 255\<rparr>"

text \<open>
  \<^verbatim>\<open>hex = hex.replace(shorthandRegex, (m, r, g, b) => r + r + g + g + b + b);\<close>
  The pattern is anchored, so a match is the whole string, and the replacement takes its
  place (the \<^verbatim>\<open>#\<close> goes with it); a string that does not match is left as it is.
\<close>

definition replaceShorthand :: "string \<Rightarrow> string" where
  "replaceShorthand hex = (case shorthandRegex hex of
      Some (c1, c2, c3) \<Rightarrow> [c1, c1, c2, c2, c3, c3]
    | None \<Rightarrow> hex)"

text \<open>
  \<^verbatim>\<open>export function hexToRgb(hex: string)\<close>. On a string no step of the body throws,
  so the \<^verbatim>\<open>catch\<close> branch, which returns the same fallback, is never entered.
\<close>

definition hexToRgb :: "string \<Rightarrow> rgb" where
  "hexToRgb hex = (case hexRegex (replaceShorthand hex) of
      Some (s1, s2, s3) \<Rightarrow> \<lparr>r = parseInt16 s1, g = parseInt16 s2, b = parseInt16 s3\<rparr>
    | None \<Rightarrow> fallback)"

subsection \<open>Vocabulary for the properties of the color parser\<close>

text \<open>A string without its leading \<^verbatim>\<open>#\<close>, when it has one.\<close>

fun stripHash :: "string \<Rightarrow> string" where
  "stripHash [] = []"
| "stripHash (c # cs) = (if c = CHR ''#'' then cs else c # cs)"

definition startsWithHash :: "string \<Rightarrow> bool" where
  "startsWithHash s = (case s of [] \<Rightarrow> False | c # _ \<Rightarrow> c = CHR ''#'')"

text \<open>The \<open>n\<close>-digit hex form: an optional \<^verbatim>\<open>#\<close>, then exactly \<open>n\<close> hex digits.\<close>

definition hexForm :: "nat \<Rightarrow> string \<Rightarrow> bool" where
  "hexForm n s = (length (stripHash s) = n \<and> list_all isHexDigit (stripHash s))"

text \<open>Two characters that are equal up to the case of an ASCII letter.\<close>

definition sameLetter :: "char \<Rightarrow> char \<Rightarrow> bool" where
  "sameLetter c d = (let m = (of_char c :: nat); n = (of_char d :: nat) in
     m = n \<or> (65 \<le> m \<and> m \<le> 90 \<and> n = m + 32) \<or> (65 \<le> n \<and> n \<le> 90 \<and> m = n + 32))"

text \<open>The byte written by two hex digits.\<close>

definition channel :: "char \<Rightarrow> char \<Rightarrow> jsnum" where
  "channel c d = Fin (real (16 * hexVal c + hexVal d))"

text \<open>
  What \<open>hexToRgb\<close> computes, by the length of the string after its optional \<^verbatim>\<open>#\<close>;
  \<open>hexToRgb_closed\<close> below proves the two equal.
\<close>

fun hexClosed :: "string \<Rightarrow> rgb" where
  "hexClosed [c1, c2, c3] =
     (if isHexDigit c1 \<and> isHexDigit c2 \<and> isHexDigit c3
      then \<lparr>r = channel c1 c1, g = channel c2 c2, b = channel c3 c3\<rparr> else fallback)"
| "hexClosed [c1, c2, c3, c4, c5, c6] =
     (if isHexDigit c1 \<and> isHexDigit c2 \<and> isHexDigit c3 \<and>
         isHexDigit c4 \<and> isHexDigit c5 \<and> isHexDigit c6
      then \<lparr>r = channel c1 c2, g = channel c3 c4, b = channel c5 c6\<rparr> else fallback)"
| "hexClosed _ = fallback"

section \<open>Configuration\<close>

text \<open>
  A value of the language, as far as the configuration needs it, and an object as the map
  from its own property names to their values. Reading a property that the object does
  not have gives \<^verbatim>\<open>undefined\<close>.
\<close>

datatype jsvalue = Undefined | Bool bool | Num jsnum | Str string | Obj "(string \<times> jsvalue) list"

type_synonym jsobject = "string \<rightharpoonup> jsvalue"

definition getProp :: "jsobject \<Rightarrow> string \<Rightarrow> jsvalue" where
  "getProp obj k = (case obj k of None \<Rightarrow> Undefined | Some v \<Rightarrow> v)"

text \<open>
  The thirteen properties written out in the object literal of \<^verbatim>\<open>defaultProps\<close>, before
  its spread element. A numeric literal stands for the number it writes.
\<close>

definition defaults :: jsobject where
  "defaults = map_of
     [(''pointSize'', Num (Fin 1)),
      (''atmosphereColor'', Str ''#ffffff''),
      (''showAtmosphere'', Bool True),
      (''atmosphereAltitude'', Num (Fin (1 / 10))),
      (''polygonColor'', Str ''rgba(255,255,255,0.7)''),
      (''globeColor'', Str ''#1d072e''),
      (''emissive'', Str ''#000000''),
      (''emissiveIntensity'', Num (Fin (1 / 10))),
      (''shininess'', Num (Fin (9 / 10))),
      (''arcTime'', Num (Fin 2000)),
      (''arcLength'', Num (Fin (9 / 10))),
      (''rings'', Num (Fin 1)),
      (''maxRings'', Num (Fin 3))]"

text \<open>
  \<^verbatim>\<open>const defaultProps = { pointSize: 1, ..., maxRings: 3, ...globeConfig };\<close>
  The spread element comes last: every own property of \<^verbatim>\<open>globeConfig\<close> is copied over
  what the literal has set so far.
\<close>

definition defaultProps :: "jsobject \<Rightarrow> jsobject" where
  "defaultProps globeConfig = defaults ++ globeConfig"

section \<open>Arc builder\<close>

text \<open>\<^verbatim>\<open>type Position\<close>: an arc of the input.\<close>

record Position =
  order :: jsnum
  startLat :: jsnum
  startLng :: jsnum
  endLat :: jsnum
  endLng :: jsnum
  arcAlt :: jsnum
  color :: string

text \<open>
  An element of \<^verbatim>\<open>globeData\<close>. Its fields \<^verbatim>\<open>size\<close>, \<^verbatim>\<open>order\<close> and \<^verbatim>\<open>color\<close> carry the
  suffix \<open>_pt\<close> here, the first because \<open>size\<close> is taken, the others to keep them apart
  from the fields of an arc.
\<close>

record point =
  size_pt :: jsvalue
  order_pt :: jsnum
  color_pt :: "jsnum \<Rightarrow> string"
  lat :: jsnum
  lng :: jsnum

text \<open>The decimal digits of a natural number.\<close>

fun digitsOf :: "nat \<Rightarrow> string" where
  "digitsOf n = (if n < 10 then [''0123456789'' ! n]
     else digitsOf (n div 10) @ [''0123456789'' ! (n mod 10)])"

declare digitsOf.simps [simp del]

text \<open>
  The string a template literal puts in place of a number. An integer below \<open>10^21\<close> in
  absolute value is written with its decimal digits. Every other finite number (one with
  a fractional part, or a larger one) is written by the runtime's shortest-digits
  rendering, which the component does not define: it is the parameter \<open>fmt\<close>.
\<close>

definition numberToString :: "(real \<Rightarrow> string) \<Rightarrow> jsnum \<Rightarrow> string" where
  "numberToString fmt v = (case v of
      NaN \<Rightarrow> ''NaN''
    | PosInf \<Rightarrow> ''Infinity''
    | NegInf \<Rightarrow> ''-Infinity''
    | Fin x \<Rightarrow>
        if x = real_of_int \<lfloor>x\<rfloor> \<and> \<bar>x\<bar> < 10 ^ 21
        then (if x < 0 then ''-'' else []) @ digitsOf (nat \<bar>\<lfloor>x\<rfloor>\<bar>)
        else fmt x)"

text \<open>
  \<^verbatim>\<open>(t: number) => `rgba(${rgb.r}, ${rgb.g}, ${rgb.b}, ${1 - t})`\<close>, the function stored in
  the field \<^verbatim>\<open>color\<close> of a point, with the triple \<^verbatim>\<open>rgb\<close> it closes over as an argument.
\<close>

definition colorFn :: "(real \<Rightarrow> string) \<Rightarrow> rgb \<Rightarrow> jsnum \<Rightarrow> string" where
  "colorFn fmt c t =
     ''rgba('' @ numberToString fmt (r c) @ '', '' @ numberToString fmt (g c) @ '', '' @
     numberToString fmt (b c) @ '', '' @ numberToString fmt (js_sub (Fin 1) t) @ '')''"

text \<open>
  The predicate of \<^verbatim>\<open>data.filter(...)\<close> in \<^verbatim>\<open>_buildData\<close> (and again in
  \<^verbatim>\<open>startAnimation\<close>).
\<close>

definition arcValid :: "Position \<Rightarrow> bool" where
  "arcValid arc = (isValidLat (startLat arc) \<and> isValidLng (startLng arc) \<and>
     isValidLat (endLat arc) \<and> isValidLng (endLng arc))"

definition validArcs :: "Position list \<Rightarrow> Position list" where
  "validArcs data = filter arcValid data"

text \<open>The callback of \<^verbatim>\<open>validArcs.flatMap(...)\<close>: the two points of one arc.\<close>

definition arcPoints :: "(real \<Rightarrow> string) \<Rightarrow> jsobject \<Rightarrow> Position \<Rightarrow> point list" where
  "arcPoints fmt globeConfig arc =
     (let c = hexToRgb (color arc) in
      [\<lparr>size_pt = getProp (defaultProps globeConfig) ''pointSize'', order_pt = order arc,
        color_pt = (\<lambda>t. colorFn fmt c t), lat = startLat arc, lng = startLng arc\<rparr>,
       \<lparr>size_pt = getProp (defaultProps globeConfig) ''pointSize'', order_pt = order arc,
        color_pt = (\<lambda>t. colorFn fmt c t), lat = endLat arc, lng = endLng arc\<rparr>])"

text \<open>\<^verbatim>\<open>const points = validArcs.flatMap(...)\<close>\<close>

definition points :: "(real \<Rightarrow> string) \<Rightarrow> jsobject \<Rightarrow> Position list \<Rightarrow> point list" where
  "points fmt globeConfig data = concat (map (arcPoints fmt globeConfig) (validArcs data))"

text \<open>
  \<^verbatim>\<open>a.findIndex(p)\<close>: the index of the first element that satisfies \<^verbatim>\<open>p\<close>, and \<open>-1\<close>
  when there is none. \<open>findIndexFrom\<close> is the scan with its running index.
\<close>

fun findIndexFrom :: "('a \<Rightarrow> bool) \<Rightarrow> int \<Rightarrow> 'a list \<Rightarrow> int" where
  "findIndexFrom P k [] = - 1"
| "findIndexFrom P k (x # xs) = (if P x then k else findIndexFrom P (k + 1) xs)"

definition findIndex :: "('a \<Rightarrow> bool) \<Rightarrow> 'a list \<Rightarrow> int" where
  "findIndex P a = findIndexFrom P 0 a"

text \<open>
  \<^verbatim>\<open>a.filter((v, i, a) => ...)\<close>: the callback sees the element, its index and the whole
  array.
\<close>

definition filterIdx :: "('a \<Rightarrow> nat \<Rightarrow> 'a list \<Rightarrow> bool) \<Rightarrow> 'a list \<Rightarrow> 'a list" where
  "filterIdx f a = map fst (filter (\<lambda>(v, i). f v i a) (zip a [0..<length a]))"

text \<open>\<^verbatim>\<open>points.filter((v) => isValidLat(v.lat) && isValidLng(v.lng))\<close>\<close>

definition validPoints :: "(real \<Rightarrow> string) \<Rightarrow> jsobject \<Rightarrow> Position list \<Rightarrow> point list" where
  "validPoints fmt globeConfig data =
     filter (\<lambda>v. isValidLat (lat v) \<and> isValidLng (lng v)) (points fmt globeConfig data)"

text \<open>
  \<^verbatim>\<open>(v, i, a) => a.findIndex((v2) => v2.lat === v.lat && v2.lng === v.lng) === i\<close>
\<close>

definition firstOfCoord :: "point \<Rightarrow> nat \<Rightarrow> point list \<Rightarrow> bool" where
  "firstOfCoord v i a =
     (findIndex (\<lambda>v2. js_strict_eq (lat v2) (lat v) \<and> js_strict_eq (lng v2) (lng v)) a = int i)"

text \<open>\<^verbatim>\<open>const filteredPoints = points.filter(...).filter(...)\<close>\<close>

definition filteredPoints :: "(real \<Rightarrow> string) \<Rightarrow> jsobject \<Rightarrow> Position list \<Rightarrow> point list" where
  "filteredPoints fmt globeConfig data = filterIdx firstOfCoord (validPoints fmt globeConfig data)"

text \<open>
  \<^verbatim>\<open>_buildData\<close> ends with \<^verbatim>\<open>setGlobeData(filteredPoints)\<close>: the list it stores is its
  result here. It reads the arcs \<^verbatim>\<open>data\<close> and the configuration of the component.
\<close>

definition buildData :: "(real \<Rightarrow> string) \<Rightarrow> jsobject \<Rightarrow> Position list \<Rightarrow> point list" where
  "buildData fmt globeConfig data = filteredPoints fmt globeConfig data"

subsection \<open>Vocabulary for the properties of the arc builder\<close>

text \<open>A finite number between \<open>-m\<close> and \<open>m\<close>.\<close>

definition inRange :: "real \<Rightarrow> jsnum \<Rightarrow> bool" where
  "inRange m v = (case v of Fin x \<Rightarrow> - m \<le> x \<and> x \<le> m | _ \<Rightarrow> False)"

text \<open>The coordinate pair of a point.\<close>

definition coord :: "point \<Rightarrow> jsnum \<times> jsnum" where
  "coord p = (lat p, lng p)"

definition okPoint :: "point \<Rightarrow> bool" where
  "okPoint v = (isValidLat (lat v) \<and> isValidLng (lng v))"

text \<open>
  Three arcs for the examples: two valid arcs with the same start, and one whose start
  latitude is 200.
\<close>

definition arcA :: Position where
  "arcA = \<lparr>order = Fin 1, startLat = Fin 10, startLng = Fin 20, endLat = Fin 30,
     endLng = Fin 40, arcAlt = Fin (1 / 10), color = ''#9370DB''\<rparr>"

definition arcB :: Position where
  "arcB = \<lparr>order = Fin 2, startLat = Fin 10, startLng = Fin 20, endLat = Fin 50,
     endLng = Fin 40, arcAlt = Fin (3 / 10), color = ''#abc''\<rparr>"

definition arcBad :: Position where
  "arcBad = \<lparr>order = Fin 3, startLat = Fin 200, startLng = Fin 5, endLat = Fin 6,
     endLng = Fin 7, arcAlt = Fin (1 / 10), color = ''#abc''\<rparr>"

section \<open>Random sampler\<close>

text \<open>
  The random source is the sequence of the values that the successive calls of
  \<^verbatim>\<open>Math.random()\<close> return: \<open>rand i\<close> is the value of call number \<open>i\<close>, a number that
  is at least 0 and less than 1. The arguments \<^verbatim>\<open>min\<close>, \<^verbatim>\<open>max\<close> and \<^verbatim>\<open>count\<close> are
  integers, as they are where the component calls the sampler; they are written \<open>mn\<close>,
  \<open>mx\<close> and \<open>count\<close>. The range of the source is a hypothesis of the theorems that need
  it, and the product in a draw is taken over the reals.
\<close>





subsection \<open>Vocabulary for the properties of the random sampler\<close>



section \<open>Properties of the coordinate validator\<close>

lemma isValidCoordinate_Fin:
  "isValidCoordinate v (Fin m) = (case v of Fin x \<Rightarrow> - m \<le> x \<and> x \<le> m | _ \<Rightarrow> False)"
  by (cases v) (auto simp: isValidCoordinate_def)

text \<open>
  C1. For every number \<open>v\<close>, \<open>isValidLat v\<close> holds exactly when \<open>v\<close> is not NaN and
  \<open>-90 <= v <= 90\<close>, and \<open>isValidLng v\<close> exactly when \<open>v\<close> is not NaN and
  \<open>-180 <= v <= 180\<close>, the comparisons being those of the language (so neither
  infinity passes). Both are total functions to the truth values: no input raises.
\<close>

theorem isValid_iff_in_range:
  "isValidLat v = (v \<noteq> NaN \<and> js_le (Fin (- 90)) v \<and> js_le v (Fin 90)) \<and>
   isValidLng v = (v \<noteq> NaN \<and> js_le (Fin (- 180)) v \<and> js_le v (Fin 180))"
  by (cases v) (auto simp: isValidLat_def isValidLng_def isValidCoordinate_def)

section \<open>Properties of the color parser\<close>

lemma not_hex_hash: "\<not> isHexDigit CHR ''#''"
  by (simp add: isHexDigit_def)

lemma shorthandBody_hash: "shorthandBody (CHR ''#'' # cs) = None"
  by (cases "CHR ''#'' # cs" rule: shorthandBody.cases) (auto simp: not_hex_hash)

lemma hexBody_hash: "hexBody (CHR ''#'' # cs) = None"
  by (cases "CHR ''#'' # cs" rule: hexBody.cases) (auto simp: not_hex_hash)

lemma firstMatch_stripHash:
  assumes "\<And>cs. body (CHR ''#'' # cs) = None"
  shows "firstMatch body s = body (stripHash s)"
proof (cases s)
  case Nil
  then show ?thesis
    by (simp add: firstMatch_def List.map_filter_simps split: option.splits)
next
  case (Cons c cs)
  then show ?thesis using assms
    by (simp add: firstMatch_def List.map_filter_simps split: option.splits)
qed

lemma shorthandRegex_stripHash: "shorthandRegex s = shorthandBody (stripHash s)"
  unfolding shorthandRegex_def by (rule firstMatch_stripHash) (rule shorthandBody_hash)

lemma hexRegex_stripHash: "hexRegex s = hexBody (stripHash s)"
  unfolding hexRegex_def by (rule firstMatch_stripHash) (rule hexBody_hash)

lemma hexVal_le: "isHexDigit c \<Longrightarrow> hexVal c \<le> 15"
  by (auto simp: isHexDigit_def hexVal_def Let_def)

lemma parseInt16_pair:
  "isHexDigit c \<Longrightarrow> isHexDigit d \<Longrightarrow> parseInt16 [c, d] = Fin (real (16 * hexVal c + hexVal d))"
  by (simp add: parseInt16_def)

lemma hexToRgb_closed: "hexToRgb s = hexClosed (stripHash s)"
  by (cases "stripHash s" rule: hexClosed.cases)
     (auto simp: hexToRgb_def replaceShorthand_def shorthandRegex_stripHash hexRegex_stripHash
        parseInt16_pair channel_def not_hex_hash)

lemma hash_code: "(c = CHR ''#'') = ((of_char c :: nat) = 35)"
proof -
  have "(c = CHR ''#'') = ((of_char c :: nat) = of_char CHR ''#'')"
    by (simp only: of_char_eq_iff)
  also have "(of_char CHR ''#'' :: nat) = 35" by simp
  finally show ?thesis .
qed

lemma sameLetter_cases:
  "sameLetter c d = ((of_char c :: nat) = of_char d \<or>
     (65 \<le> (of_char c :: nat) \<and> (of_char c :: nat) \<le> 90 \<and> (of_char d :: nat) = of_char c + 32) \<or>
     (65 \<le> (of_char d :: nat) \<and> (of_char d :: nat) \<le> 90 \<and> (of_char c :: nat) = of_char d + 32))"
  unfolding sameLetter_def Let_def by (rule refl)

lemma sameLetter_hash: "sameLetter c d \<Longrightarrow> (c = CHR ''#'') = (d = CHR ''#'')"
  unfolding hash_code sameLetter_cases by arith

lemma sameLetter_isHexDigit: "sameLetter c d \<Longrightarrow> isHexDigit c = isHexDigit d"
  unfolding sameLetter_cases isHexDigit_def Let_def by arith

lemma hexVal_arith:
  fixes m n :: nat
  assumes "m = n \<or> (65 \<le> m \<and> m \<le> 90 \<and> n = m + 32) \<or> (65 \<le> n \<and> n \<le> 90 \<and> m = n + 32)"
    and "(48 \<le> m \<and> m \<le> 57) \<or> (97 \<le> m \<and> m \<le> 102) \<or> (65 \<le> m \<and> m \<le> 70)"
  shows "(if 48 \<le> m \<and> m \<le> 57 then m - 48 else if 97 \<le> m \<and> m \<le> 102 then m - 87 else m - 55) =
         (if 48 \<le> n \<and> n \<le> 57 then n - 48 else if 97 \<le> n \<and> n \<le> 102 then n - 87 else n - 55)"
  using assms by (auto split: if_splits)

lemma sameLetter_hexVal: "sameLetter c d \<Longrightarrow> isHexDigit c \<Longrightarrow> hexVal c = hexVal d"
  unfolding sameLetter_cases isHexDigit_def hexVal_def Let_def by (rule hexVal_arith)

lemma sameLetter_channel:
  "sameLetter c c' \<Longrightarrow> sameLetter d d' \<Longrightarrow> isHexDigit c \<Longrightarrow> isHexDigit d \<Longrightarrow>
   channel c d = channel c' d'"
  by (simp add: channel_def sameLetter_hexVal)

lemma sameLetter_stripHash:
  "list_all2 sameLetter s t \<Longrightarrow> list_all2 sameLetter (stripHash s) (stripHash t)"
  by (cases s; cases t) (auto dest: sameLetter_hash)

lemma sameLetter_hexClosed:
  "list_all2 sameLetter u v \<Longrightarrow> hexClosed u = hexClosed v"
proof (cases u rule: hexClosed.cases)
  case (1 c1 c2 c3)
  assume rel: "list_all2 sameLetter u v"
  with 1 obtain d1 d2 d3 where v: "v = [d1, d2, d3]"
    and s: "sameLetter c1 d1" "sameLetter c2 d2" "sameLetter c3 d3"
    by (auto simp: list_all2_Cons1)
  show ?thesis
    using sameLetter_isHexDigit [OF s(1)] sameLetter_isHexDigit [OF s(2)]
      sameLetter_isHexDigit [OF s(3)] sameLetter_channel [OF s(1) s(1)]
      sameLetter_channel [OF s(2) s(2)] sameLetter_channel [OF s(3) s(3)]
    by (simp add: 1 v)
next
  case (2 c1 c2 c3 c4 c5 c6)
  assume rel: "list_all2 sameLetter u v"
  with 2 obtain d1 d2 d3 d4 d5 d6 where v: "v = [d1, d2, d3, d4, d5, d6]"
    and s: "sameLetter c1 d1" "sameLetter c2 d2" "sameLetter c3 d3"
      "sameLetter c4 d4" "sameLetter c5 d5" "sameLetter c6 d6"
    by (auto simp: list_all2_Cons1)
  show ?thesis
    using sameLetter_isHexDigit [OF s(1)] sameLetter_isHexDigit [OF s(2)]
      sameLetter_isHexDigit [OF s(3)] sameLetter_isHexDigit [OF s(4)]
      sameLetter_isHexDigit [OF s(5)] sameLetter_isHexDigit [OF s(6)]
      sameLetter_channel [OF s(1) s(2)] sameLetter_channel [OF s(3) s(4)]
      sameLetter_channel [OF s(5) s(6)]
    by (simp add: 2 v)
qed (auto simp: list_all2_Cons1)

lemma hexToRgb_sameLetter: "list_all2 sameLetter s t \<Longrightarrow> hexToRgb s = hexToRgb t"
  unfolding hexToRgb_closed by (rule sameLetter_hexClosed) (rule sameLetter_stripHash)

lemma channel_le: "isHexDigit c \<Longrightarrow> isHexDigit d \<Longrightarrow> 16 * hexVal c + hexVal d \<le> 255"
  using hexVal_le [of c] hexVal_le [of d] by simp

lemma hexClosed_bytes:
  "\<exists>n1 n2 n3. n1 \<le> 255 \<and> n2 \<le> 255 \<and> n3 \<le> 255 \<and>
     hexClosed u = \<lparr>r = Fin (real n1), g = Fin (real n2), b = Fin (real n3)\<rparr>"
proof -
  define ok where "ok = (\<lambda>x. \<exists>n1 n2 n3. n1 \<le> 255 \<and> n2 \<le> 255 \<and> n3 \<le> 255 \<and>
     x = \<lparr>r = Fin (real n1), g = Fin (real n2), b = Fin (real n3)\<rparr>)"
  have white: "ok fallback"
    unfolding ok_def by (intro exI [of _ "255::nat"]) (simp add: fallback_def)
  have parsed: "ok \<lparr>r = channel c1 c2, g = channel c3 c4, b = channel c5 c6\<rparr>"
    if "isHexDigit c1" "isHexDigit c2" "isHexDigit c3" "isHexDigit c4" "isHexDigit c5" "isHexDigit c6"
    for c1 c2 c3 c4 c5 c6
    using channel_le [OF that(1,2)] channel_le [OF that(3,4)] channel_le [OF that(5,6)]
    unfolding channel_def ok_def by blast
  have "ok (hexClosed u)"
    by (cases u rule: hexClosed.cases) (simp_all add: white parsed)
  then show ?thesis unfolding ok_def .
qed

text \<open>
  C4. \<open>hexToRgb\<close> expands a three-digit shorthand by doubling each character (with or
  without the leading \<^verbatim>\<open>#\<close>, the shorthand and its doubled form give the same result)
  and reads a six-digit form as three bytes, each from two hex digits. On the three
  strings of the specification: \<^verbatim>\<open>#9370DB\<close> gives (147, 112, 219), \<^verbatim>\<open>#abc\<close> gives
  (170, 187, 204), and \<^verbatim>\<open>not-a-color\<close> gives (255, 255, 255).
\<close>

theorem hexToRgb_shorthand_and_examples:
  "hexToRgb ''#9370DB'' = \<lparr>r = Fin 147, g = Fin 112, b = Fin 219\<rparr> \<and>
   hexToRgb ''#abc'' = \<lparr>r = Fin 170, g = Fin 187, b = Fin 204\<rparr> \<and>
   hexToRgb ''not-a-color'' = \<lparr>r = Fin 255, g = Fin 255, b = Fin 255\<rparr> \<and>
   hexToRgb [CHR ''#'', c1, c2, c3] = hexToRgb [CHR ''#'', c1, c1, c2, c2, c3, c3] \<and>
   hexToRgb [c1, c2, c3] = hexToRgb [c1, c1, c2, c2, c3, c3] \<and>
   (isHexDigit d1 \<and> isHexDigit d2 \<and> isHexDigit d3 \<and>
    isHexDigit d4 \<and> isHexDigit d5 \<and> isHexDigit d6 \<longrightarrow>
      hexToRgb [CHR ''#'', d1, d2, d3, d4, d5, d6] =
        \<lparr>r = Fin (real (16 * hexVal d1 + hexVal d2)),
         g = Fin (real (16 * hexVal d3 + hexVal d4)),
         b = Fin (real (16 * hexVal d5 + hexVal d6))\<rparr>)"
proof -
  have e1: "hexToRgb ''#9370DB'' = \<lparr>r = Fin 147, g = Fin 112, b = Fin 219\<rparr>"
    by (simp add: hexToRgb_closed channel_def isHexDigit_def hexVal_def)
  have e2: "hexToRgb ''#abc'' = \<lparr>r = Fin 170, g = Fin 187, b = Fin 204\<rparr>"
    by (simp add: hexToRgb_closed channel_def isHexDigit_def hexVal_def)
  have e3: "hexToRgb ''not-a-color'' = \<lparr>r = Fin 255, g = Fin 255, b = Fin 255\<rparr>"
    by (simp add: hexToRgb_closed fallback_def)
  have s1: "hexToRgb [CHR ''#'', c1, c2, c3] = hexToRgb [CHR ''#'', c1, c1, c2, c2, c3, c3]"
    by (simp add: hexToRgb_closed)
  have s2: "hexToRgb [c1, c2, c3] = hexToRgb [c1, c1, c2, c2, c3, c3]"
    by (simp add: hexToRgb_closed not_hex_hash)
  have p: "isHexDigit d1 \<and> isHexDigit d2 \<and> isHexDigit d3 \<and>
    isHexDigit d4 \<and> isHexDigit d5 \<and> isHexDigit d6 \<longrightarrow>
      hexToRgb [CHR ''#'', d1, d2, d3, d4, d5, d6] =
        \<lparr>r = Fin (real (16 * hexVal d1 + hexVal d2)),
         g = Fin (real (16 * hexVal d3 + hexVal d4)),
         b = Fin (real (16 * hexVal d5 + hexVal d6))\<rparr>"
    by (simp add: hexToRgb_closed channel_def)
  from e1 e2 e3 s1 s2 p show ?thesis by blast
qed

text \<open>The theorem at the shorthand \<^verbatim>\<open>#fa0\<close> and at the default globe color \<^verbatim>\<open>#1d072e\<close>.\<close>

theorem hexToRgb_shorthand_and_examples_witness:
  "isHexDigit CHR ''1'' \<and> isHexDigit CHR ''d'' \<and> isHexDigit CHR ''0'' \<and> isHexDigit CHR ''7'' \<and>
   isHexDigit CHR ''2'' \<and> isHexDigit CHR ''e'' \<and>
   hexToRgb ''#1d072e'' = \<lparr>r = Fin 29, g = Fin 7, b = Fin 46\<rparr> \<and>
   hexToRgb ''#fa0'' = hexToRgb ''#ffaa00''"
  using hexToRgb_shorthand_and_examples [of "CHR ''f''" "CHR ''a''" "CHR ''0''"
      "CHR ''1''" "CHR ''d''" "CHR ''0''" "CHR ''7''" "CHR ''2''" "CHR ''e''"]
  by (simp add: isHexDigit_def hexVal_def)

text \<open>
  C5. For every string, \<open>hexToRgb\<close> returns a triple whose three channels are integers
  between 0 and 255. A string that has neither the three-digit nor the six-digit hex
  form gives exactly the fallback (255, 255, 255). The result is a plain triple: the
  function has no other way to report a failure.
\<close>

theorem hexToRgb_channels_and_fallback:
  "(\<exists>n1 n2 n3. n1 \<le> 255 \<and> n2 \<le> 255 \<and> n3 \<le> 255 \<and>
      hexToRgb s = \<lparr>r = Fin (real n1), g = Fin (real n2), b = Fin (real n3)\<rparr>) \<and>
   (\<not> hexForm 3 s \<and> \<not> hexForm 6 s \<longrightarrow>
      hexToRgb s = \<lparr>r = Fin 255, g = Fin 255, b = Fin 255\<rparr>)"
proof
  show "\<exists>n1 n2 n3. n1 \<le> 255 \<and> n2 \<le> 255 \<and> n3 \<le> 255 \<and>
      hexToRgb s = \<lparr>r = Fin (real n1), g = Fin (real n2), b = Fin (real n3)\<rparr>"
    unfolding hexToRgb_closed by (rule hexClosed_bytes)
  show "\<not> hexForm 3 s \<and> \<not> hexForm 6 s \<longrightarrow>
      hexToRgb s = \<lparr>r = Fin 255, g = Fin 255, b = Fin 255\<rparr>"
    unfolding hexToRgb_closed hexForm_def
    by (cases "stripHash s" rule: hexClosed.cases) (auto simp: fallback_def)
qed

text \<open>The theorem at a string of five digits after the \<^verbatim>\<open>#\<close>.\<close>

theorem hexToRgb_channels_and_fallback_witness:
  "\<not> hexForm 3 ''#12345'' \<and> \<not> hexForm 6 ''#12345'' \<and>
   hexToRgb ''#12345'' = \<lparr>r = Fin 255, g = Fin 255, b = Fin 255\<rparr>"
  using hexToRgb_channels_and_fallback [of "''#12345''"]
  by (simp add: hexForm_def)

text \<open>
  C10, as stated for every string, fails on the string \<^verbatim>\<open>#abc\<close>, which already begins
  with \<^verbatim>\<open>#\<close>: the pattern takes at most one \<^verbatim>\<open>#\<close>, so with one more in front the
  result is the fallback, and without it the result is (170, 187, 204).
\<close>

theorem hexToRgb_double_hash_counterexample:
  "hexToRgb (CHR ''#'' # ''#abc'') = \<lparr>r = Fin 255, g = Fin 255, b = Fin 255\<rparr> \<and>
   hexToRgb ''#abc'' = \<lparr>r = Fin 170, g = Fin 187, b = Fin 204\<rparr>"
  by (simp add: hexToRgb_closed channel_def isHexDigit_def hexVal_def fallback_def)

text \<open>
  C10, amended. For every string \<open>s\<close> that does not itself begin with \<^verbatim>\<open>#\<close>,
  \<open>hexToRgb\<close> gives the same triple on \<open>s\<close> and on \<open>s\<close> with a leading \<^verbatim>\<open>#\<close>; and for
  all strings \<open>s\<close> and \<open>t\<close> that differ only in the case of ASCII letters, \<open>hexToRgb\<close>
  gives the same triple on both. In particular \<^verbatim>\<open>9370db\<close> and \<^verbatim>\<open>#9370DB\<close> both give
  (147, 112, 219).
\<close>

theorem hexToRgb_hash_optional_case_insensitive:
  "(\<not> startsWithHash s \<longrightarrow> hexToRgb (CHR ''#'' # s) = hexToRgb s) \<and>
   (list_all2 sameLetter s t \<longrightarrow> hexToRgb s = hexToRgb t) \<and>
   hexToRgb ''9370db'' = \<lparr>r = Fin 147, g = Fin 112, b = Fin 219\<rparr> \<and>
   hexToRgb ''#9370DB'' = \<lparr>r = Fin 147, g = Fin 112, b = Fin 219\<rparr>"
proof -
  have h: "\<not> startsWithHash s \<longrightarrow> hexToRgb (CHR ''#'' # s) = hexToRgb s"
    by (cases s) (simp_all add: hexToRgb_closed startsWithHash_def)
  have c: "list_all2 sameLetter s t \<longrightarrow> hexToRgb s = hexToRgb t"
    by (simp add: hexToRgb_sameLetter)
  have e1: "hexToRgb ''9370db'' = \<lparr>r = Fin 147, g = Fin 112, b = Fin 219\<rparr>"
    by (simp add: hexToRgb_closed channel_def isHexDigit_def hexVal_def)
  have e2: "hexToRgb ''#9370DB'' = \<lparr>r = Fin 147, g = Fin 112, b = Fin 219\<rparr>"
    by (simp add: hexToRgb_closed channel_def isHexDigit_def hexVal_def)
  from h c e1 e2 show ?thesis by blast
qed

text \<open>The amended statement at \<^verbatim>\<open>1D072e\<close> and its case variant \<^verbatim>\<open>1d072E\<close>.\<close>

theorem hexToRgb_hash_optional_case_insensitive_witness:
  "\<not> startsWithHash ''1D072e'' \<and> list_all2 sameLetter ''1D072e'' ''1d072E'' \<and>
   hexToRgb ''#1D072e'' = hexToRgb ''1D072e'' \<and> hexToRgb ''1D072e'' = hexToRgb ''1d072E''"
  using hexToRgb_hash_optional_case_insensitive [of "''1D072e''" "''1d072E''"]
  by (simp add: startsWithHash_def sameLetter_def)

section \<open>Properties of the configuration\<close>

text \<open>
  C8. For every configuration object of the caller, the merged configuration is the
  defaults overridden by the caller's values: an option the caller names has the
  caller's value, and an option the caller omits has its default: \<^verbatim>\<open>pointSize\<close> 1,
  \<^verbatim>\<open>atmosphereColor\<close> \<^verbatim>\<open>#ffffff\<close>, \<^verbatim>\<open>showAtmosphere\<close> true, \<^verbatim>\<open>atmosphereAltitude\<close> 0.1,
  \<^verbatim>\<open>polygonColor\<close> \<^verbatim>\<open>rgba(255,255,255,0.7)\<close>, \<^verbatim>\<open>globeColor\<close> \<^verbatim>\<open>#1d072e\<close>, \<^verbatim>\<open>emissive\<close>
  \<^verbatim>\<open>#000000\<close>, \<^verbatim>\<open>emissiveIntensity\<close> 0.1, \<^verbatim>\<open>shininess\<close> 0.9, \<^verbatim>\<open>arcTime\<close> 2000,
  \<^verbatim>\<open>arcLength\<close> 0.9, \<^verbatim>\<open>rings\<close> 1, \<^verbatim>\<open>maxRings\<close> 3; an option with no default that the
  caller omits stays absent.
\<close>

theorem defaultProps_overrides_defaults:
  "(\<forall>k v. globeConfig k = Some v \<longrightarrow> defaultProps globeConfig k = Some v) \<and>
   (\<forall>k. globeConfig k = None \<longrightarrow>
      defaultProps globeConfig k = map_of
        [(''pointSize'', Num (Fin 1)),
         (''atmosphereColor'', Str ''#ffffff''),
         (''showAtmosphere'', Bool True),
         (''atmosphereAltitude'', Num (Fin (1 / 10))),
         (''polygonColor'', Str ''rgba(255,255,255,0.7)''),
         (''globeColor'', Str ''#1d072e''),
         (''emissive'', Str ''#000000''),
         (''emissiveIntensity'', Num (Fin (1 / 10))),
         (''shininess'', Num (Fin (9 / 10))),
         (''arcTime'', Num (Fin 2000)),
         (''arcLength'', Num (Fin (9 / 10))),
         (''rings'', Num (Fin 1)),
         (''maxRings'', Num (Fin 3))] k)"
  unfolding defaultProps_def defaults_def by (simp add: map_add_def)

text \<open>
  The theorem at a caller who sets \<^verbatim>\<open>pointSize\<close> to 2 and \<^verbatim>\<open>autoRotate\<close> to true: one
  default overridden, one option without default set, one default kept, one option
  absent.
\<close>

theorem defaultProps_overrides_defaults_witness:
  "defaultProps [''pointSize'' \<mapsto> Num (Fin 2), ''autoRotate'' \<mapsto> Bool True] ''pointSize'' =
     Some (Num (Fin 2)) \<and>
   defaultProps [''pointSize'' \<mapsto> Num (Fin 2), ''autoRotate'' \<mapsto> Bool True] ''autoRotate'' =
     Some (Bool True) \<and>
   defaultProps [''pointSize'' \<mapsto> Num (Fin 2), ''autoRotate'' \<mapsto> Bool True] ''arcTime'' =
     Some (Num (Fin 2000)) \<and>
   defaultProps [''pointSize'' \<mapsto> Num (Fin 2), ''autoRotate'' \<mapsto> Bool True] ''pointLight'' = None"
  using defaultProps_overrides_defaults
    [of "[''pointSize'' \<mapsto> Num (Fin 2), ''autoRotate'' \<mapsto> Bool True]"]
  by simp

section \<open>Properties of the arc builder\<close>

subsection \<open>The scan for the first index\<close>

lemma findIndexFrom_range:
  "findIndexFrom P k xs = - 1 \<or>
   (k \<le> findIndexFrom P k xs \<and> findIndexFrom P k xs < k + int (length xs))"
proof (induction xs arbitrary: k)
  case Nil
  then show ?case by simp
next
  case (Cons x xs)
  from Cons [of "k + 1"] show ?case by auto
qed
















lemma arcValid_inRange:
  "arcValid arc = (inRange 90 (startLat arc) \<and> inRange 180 (startLng arc) \<and>
     inRange 90 (endLat arc) \<and> inRange 180 (endLng arc))"
  by (simp add: arcValid_def isValidLat_def isValidLng_def isValidCoordinate_Fin inRange_def)

lemma arcPoints_ok: "arcValid arc \<Longrightarrow> p \<in> set (arcPoints fmt cfg arc) \<Longrightarrow> okPoint p"
  by (auto simp: arcPoints_def arcValid_def okPoint_def Let_def)

lemma points_iff:
  "(p \<in> set (points fmt cfg data)) =
   (\<exists>arc\<in>set data. arcValid arc \<and> p \<in> set (arcPoints fmt cfg arc))"
  by (auto simp: points_def validArcs_def)

lemma points_ok: "\<forall>p\<in>set (points fmt cfg data). okPoint p"
  by (auto simp: points_iff intro: arcPoints_ok)

lemma validPoints_points: "validPoints fmt cfg data = points fmt cfg data"
  using points_ok [of fmt cfg data] by (simp add: validPoints_def okPoint_def)

lemma filterIdx_subset: "set (filterIdx f a) \<subseteq> set a"
  by (auto simp: filterIdx_def dest: set_zip_leftD)

lemma buildData_points: "buildData fmt cfg data = filterIdx firstOfCoord (points fmt cfg data)"
  by (simp add: buildData_def filteredPoints_def validPoints_points)

lemma buildData_subset:
  "p \<in> set (buildData fmt cfg data) \<Longrightarrow>
   \<exists>arc\<in>set data. arcValid arc \<and> p \<in> set (arcPoints fmt cfg arc)"
  using filterIdx_subset [of firstOfCoord "points fmt cfg data"]
  by (auto simp: buildData_points points_iff [symmetric])

lemma validArcs_drop: "\<not> arcValid a \<Longrightarrow> validArcs (xs @ a # ys) = validArcs (xs @ ys)"
  by (simp add: validArcs_def)





text \<open>
  C3. An arc with a coordinate that fails validation (a start or end latitude that is
  not a finite number in \<open>[-90, 90]\<close>, a start or end longitude that is not a finite
  number in \<open>[-180, 180]\<close>; NaN is neither) contributes no point: the output is the same
  with the arc and without it, and every point of any output is one of the two points
  of an arc of the input whose four coordinates are in range. The builder returns a
  plain list, so the arc is dropped with no error.
\<close>

theorem buildData_drops_invalid_arc:
  "(\<not> inRange 90 (startLat a) \<or> \<not> inRange 180 (startLng a) \<or>
    \<not> inRange 90 (endLat a) \<or> \<not> inRange 180 (endLng a) \<longrightarrow>
      buildData fmt cfg (xs @ a # ys) = buildData fmt cfg (xs @ ys)) \<and>
   (\<forall>p\<in>set (buildData fmt cfg data). \<exists>arc\<in>set data.
      inRange 90 (startLat arc) \<and> inRange 180 (startLng arc) \<and>
      inRange 90 (endLat arc) \<and> inRange 180 (endLng arc) \<and>
      p \<in> set (arcPoints fmt cfg arc))"
proof
  show "\<not> inRange 90 (startLat a) \<or> \<not> inRange 180 (startLng a) \<or>
    \<not> inRange 90 (endLat a) \<or> \<not> inRange 180 (endLng a) \<longrightarrow>
      buildData fmt cfg (xs @ a # ys) = buildData fmt cfg (xs @ ys)"
  proof
    assume "\<not> inRange 90 (startLat a) \<or> \<not> inRange 180 (startLng a) \<or>
      \<not> inRange 90 (endLat a) \<or> \<not> inRange 180 (endLng a)"
    then have "\<not> arcValid a" by (auto simp: arcValid_inRange)
    then show "buildData fmt cfg (xs @ a # ys) = buildData fmt cfg (xs @ ys)"
      by (simp add: buildData_points points_def validArcs_drop)
  qed
  show "\<forall>p\<in>set (buildData fmt cfg data). \<exists>arc\<in>set data.
      inRange 90 (startLat arc) \<and> inRange 180 (startLng arc) \<and>
      inRange 90 (endLat arc) \<and> inRange 180 (endLng arc) \<and>
      p \<in> set (arcPoints fmt cfg arc)"
    using buildData_subset [of _ fmt cfg data] by (auto simp: arcValid_inRange)
qed

text \<open>The theorem at an arc with start latitude 200, between two valid arcs.\<close>

theorem buildData_drops_invalid_arc_witness:
  "\<not> inRange 90 (startLat arcBad) \<and>
   buildData (\<lambda>x. []) Map.empty [arcA, arcBad, arcB] = buildData (\<lambda>x. []) Map.empty [arcA, arcB] \<and>
   map coord (buildData (\<lambda>x. []) Map.empty [arcA, arcBad, arcB]) =
     [(Fin 10, Fin 20), (Fin 30, Fin 40), (Fin 50, Fin 40)]"
proof -
  have bad: "\<not> inRange 90 (startLat arcBad)" by (simp add: inRange_def arcBad_def)
  have ev: "map coord (buildData (\<lambda>x. []) Map.empty [arcA, arcB]) =
     [(Fin 10, Fin 20), (Fin 30, Fin 40), (Fin 50, Fin 40)]"
    by (simp add: buildData_def filteredPoints_def validPoints_def points_def validArcs_def
        arcValid_def arcPoints_def filterIdx_def firstOfCoord_def findIndex_def isValidLat_def
        isValidLng_def isValidCoordinate_def coord_def upt_conv_Cons Let_def arcA_def arcB_def)
  from buildData_drops_invalid_arc [of arcBad "\<lambda>x. []" Map.empty "[arcA]" "[arcB]" "[]"] bad
  have "buildData (\<lambda>x. []) Map.empty [arcA, arcBad, arcB] = buildData (\<lambda>x. []) Map.empty [arcA, arcB]"
    by simp
  with bad ev show ?thesis by simp
qed

lemma numberToString_byte: "n \<le> 255 \<Longrightarrow> numberToString fmt (Fin (real n)) = digitsOf n"
proof -
  assume "n \<le> 255"
  then have "real n < 10 ^ 21" by simp
  then show ?thesis by (simp add: numberToString_def)
qed

lemma colorFn_bytes:
  assumes "c = \<lparr>r = Fin (real n1), g = Fin (real n2), b = Fin (real n3)\<rparr>"
    and "n1 \<le> 255" "n2 \<le> 255" "n3 \<le> 255"
  shows "colorFn fmt c t =
    ''rgba('' @ digitsOf n1 @ '', '' @ digitsOf n2 @ '', '' @ digitsOf n3 @ '', '' @
    numberToString fmt (js_sub (Fin 1) t) @ '')''"
  using assms by (simp add: colorFn_def numberToString_byte)

lemma numberToString_0_1: "numberToString fmt (Fin 0) = ''0''" "numberToString fmt (Fin 1) = ''1''"
  by (simp_all add: numberToString_def digitsOf.simps)

lemma arcPoints_color:
  "p \<in> set (arcPoints fmt cfg arc) \<Longrightarrow> color_pt p = colorFn fmt (hexToRgb (color arc))"
  by (auto simp: arcPoints_def Let_def)

lemma hexToRgb_bytes:
  "\<exists>n1 n2 n3. n1 \<le> 255 \<and> n2 \<le> 255 \<and> n3 \<le> 255 \<and>
      hexToRgb s = \<lparr>r = Fin (real n1), g = Fin (real n2), b = Fin (real n3)\<rparr>"
  unfolding hexToRgb_closed by (rule hexClosed_bytes)

text \<open>
  C9. Each point of the output is one of the two points of an arc of the input, and its
  color function is closed over the triple parsed from the color string of that arc,
  whose channels are integers \<open>n1\<close>, \<open>n2\<close>, \<open>n3\<close> at most 255. At every finite \<open>t\<close>, so at
  every \<open>t\<close> in \<open>[0, 1]\<close>, the function returns \<^verbatim>\<open>rgba(n1, n2, n3, a)\<close> where \<open>a\<close> is the
  number \<open>1 - t\<close> as the language prints it: \<^verbatim>\<open>1\<close> at \<open>t = 0\<close> and \<^verbatim>\<open>0\<close> at \<open>t = 1\<close>.
\<close>

theorem buildData_color_function:
  "\<forall>p\<in>set (buildData fmt cfg data). \<exists>arc\<in>set data. \<exists>n1 n2 n3.
      p \<in> set (arcPoints fmt cfg arc) \<and>
      hexToRgb (color arc) = \<lparr>r = Fin (real n1), g = Fin (real n2), b = Fin (real n3)\<rparr> \<and>
      n1 \<le> 255 \<and> n2 \<le> 255 \<and> n3 \<le> 255 \<and>
      (\<forall>x. color_pt p (Fin x) =
         ''rgba('' @ digitsOf n1 @ '', '' @ digitsOf n2 @ '', '' @ digitsOf n3 @ '', '' @
         numberToString fmt (Fin (1 - x)) @ '')'') \<and>
      color_pt p (Fin 0) =
         ''rgba('' @ digitsOf n1 @ '', '' @ digitsOf n2 @ '', '' @ digitsOf n3 @ '', 1)'' \<and>
      color_pt p (Fin 1) =
         ''rgba('' @ digitsOf n1 @ '', '' @ digitsOf n2 @ '', '' @ digitsOf n3 @ '', 0)''"
proof
  fix p assume "p \<in> set (buildData fmt cfg data)"
  from buildData_subset [OF this] obtain arc where arc: "arc \<in> set data"
    and p: "p \<in> set (arcPoints fmt cfg arc)" by blast
  from hexToRgb_bytes [of "color arc"] obtain n1 n2 n3
    where n: "n1 \<le> 255" "n2 \<le> 255" "n3 \<le> 255"
    and c: "hexToRgb (color arc) = \<lparr>r = Fin (real n1), g = Fin (real n2), b = Fin (real n3)\<rparr>"
    by blast
  have col: "color_pt p t =
    ''rgba('' @ digitsOf n1 @ '', '' @ digitsOf n2 @ '', '' @ digitsOf n3 @ '', '' @
    numberToString fmt (js_sub (Fin 1) t) @ '')''" for t
    unfolding arcPoints_color [OF p] by (rule colorFn_bytes [OF c n])
  have "\<forall>x. color_pt p (Fin x) =
         ''rgba('' @ digitsOf n1 @ '', '' @ digitsOf n2 @ '', '' @ digitsOf n3 @ '', '' @
         numberToString fmt (Fin (1 - x)) @ '')''"
    by (simp add: col)
  moreover have "color_pt p (Fin 0) =
         ''rgba('' @ digitsOf n1 @ '', '' @ digitsOf n2 @ '', '' @ digitsOf n3 @ '', 1)''"
    by (simp add: col numberToString_0_1)
  moreover have "color_pt p (Fin 1) =
         ''rgba('' @ digitsOf n1 @ '', '' @ digitsOf n2 @ '', '' @ digitsOf n3 @ '', 0)''"
    by (simp add: col numberToString_0_1)
  ultimately show "\<exists>arc\<in>set data. \<exists>n1 n2 n3.
      p \<in> set (arcPoints fmt cfg arc) \<and>
      hexToRgb (color arc) = \<lparr>r = Fin (real n1), g = Fin (real n2), b = Fin (real n3)\<rparr> \<and>
      n1 \<le> 255 \<and> n2 \<le> 255 \<and> n3 \<le> 255 \<and>
      (\<forall>x. color_pt p (Fin x) =
         ''rgba('' @ digitsOf n1 @ '', '' @ digitsOf n2 @ '', '' @ digitsOf n3 @ '', '' @
         numberToString fmt (Fin (1 - x)) @ '')'') \<and>
      color_pt p (Fin 0) =
         ''rgba('' @ digitsOf n1 @ '', '' @ digitsOf n2 @ '', '' @ digitsOf n3 @ '', 1)'' \<and>
      color_pt p (Fin 1) =
         ''rgba('' @ digitsOf n1 @ '', '' @ digitsOf n2 @ '', '' @ digitsOf n3 @ '', 0)''"
    using arc p n c by blast
qed

text \<open>
  The theorem at the single arc \<open>arcA\<close>, of color \<^verbatim>\<open>#9370DB\<close>, with a rendering of
  fractions that prints three quarters as \<^verbatim>\<open>0.75\<close>: both points give alpha 1 at 0,
  0.75 at one quarter and 0 at 1.
\<close>

theorem buildData_color_function_witness:
  "length (buildData (\<lambda>x. ''0.75'') Map.empty [arcA]) = 2 \<and>
   list_all (\<lambda>p. color_pt p (Fin 0) = ''rgba(147, 112, 219, 1)'' \<and>
                 color_pt p (Fin (1 / 4)) = ''rgba(147, 112, 219, 0.75)'' \<and>
                 color_pt p (Fin 1) = ''rgba(147, 112, 219, 0)'')
     (buildData (\<lambda>x. ''0.75'') Map.empty [arcA])"
proof -
  let ?out = "buildData (\<lambda>x. ''0.75'') Map.empty [arcA]"
  have h: "hexToRgb (color arcA) = \<lparr>r = Fin 147, g = Fin 112, b = Fin 219\<rparr>"
    by (simp add: arcA_def hexToRgb_closed channel_def isHexDigit_def hexVal_def)
  have d: "digitsOf 147 = ''147''" "digitsOf 112 = ''112''" "digitsOf 219 = ''219''"
    by (simp_all add: digitsOf.simps)
  have q: "numberToString (\<lambda>x. ''0.75'') (Fin (1 - 1 / 4)) = ''0.75''"
    by (simp add: numberToString_def)
  have "map coord ?out = [(Fin 10, Fin 20), (Fin 30, Fin 40)]"
    by (simp add: buildData_def filteredPoints_def validPoints_def points_def validArcs_def
        arcValid_def arcPoints_def filterIdx_def firstOfCoord_def findIndex_def isValidLat_def
        isValidLng_def isValidCoordinate_def coord_def upt_conv_Cons Let_def arcA_def)
  then have "length (map coord ?out) = 2" by simp
  then have len: "length ?out = 2" by simp
  have "color_pt p (Fin 0) = ''rgba(147, 112, 219, 1)'' \<and>
        color_pt p (Fin (1 / 4)) = ''rgba(147, 112, 219, 0.75)'' \<and>
        color_pt p (Fin 1) = ''rgba(147, 112, 219, 0)''" if "p \<in> set ?out" for p
  proof -
    from buildData_color_function [of "\<lambda>x. ''0.75''" Map.empty "[arcA]"] that
    obtain n1 n2 n3
      where c: "hexToRgb (color arcA) = \<lparr>r = Fin (real n1), g = Fin (real n2), b = Fin (real n3)\<rparr>"
        and x: "\<forall>x. color_pt p (Fin x) =
           ''rgba('' @ digitsOf n1 @ '', '' @ digitsOf n2 @ '', '' @ digitsOf n3 @ '', '' @
           numberToString (\<lambda>x. ''0.75'') (Fin (1 - x)) @ '')''"
        and z: "color_pt p (Fin 0) =
           ''rgba('' @ digitsOf n1 @ '', '' @ digitsOf n2 @ '', '' @ digitsOf n3 @ '', 1)''"
        and o: "color_pt p (Fin 1) =
           ''rgba('' @ digitsOf n1 @ '', '' @ digitsOf n2 @ '', '' @ digitsOf n3 @ '', 0)''"
      by fastforce
    from c h have n: "n1 = 147" "n2 = 112" "n3 = 219" by simp_all
    from x have "color_pt p (Fin (1 / 4)) =
           ''rgba('' @ digitsOf n1 @ '', '' @ digitsOf n2 @ '', '' @ digitsOf n3 @ '', '' @
           numberToString (\<lambda>x. ''0.75'') (Fin (1 - 1 / 4)) @ '')''" by (rule spec)
    with z o show ?thesis unfolding n d q by simp
  qed
  then have "list_all (\<lambda>p. color_pt p (Fin 0) = ''rgba(147, 112, 219, 1)'' \<and>
                 color_pt p (Fin (1 / 4)) = ''rgba(147, 112, 219, 0.75)'' \<and>
                 color_pt p (Fin 1) = ''rgba(147, 112, 219, 0)'') ?out"
    unfolding list_all_iff by blast
  with len show ?thesis by blast
qed

section \<open>Properties of the random sampler\<close>




























end
